theory Spec2Isabelle
  imports Main "HOL-Library.AList" "HOL-Library.Sublist"
begin

section \<open>JavaScript values\<close>

text \<open>
  The values that reach \<^verbatim>\<open>lib/index.js\<close>. Functions are named by a tag (the module's own
  \<^verbatim>\<open>getLastTimestamp\<close>, the default bunyan logger closure, or a caller's function);
  an object literal is its list of own properties in insertion order, each name once. Numbers carry an
  integer: the module only asks for their \<^verbatim>\<open>typeof\<close> and truthiness and stores the two
  defaults 5 and 30000. \<^verbatim>\<open>JTimestamp low high\<close> is \<^verbatim>\<open>new mongodb.Timestamp(low, high)\<close>,
  \<^verbatim>\<open>JError c m\<close> is an error object of class \<^verbatim>\<open>c\<close> with message \<^verbatim>\<open>m\<close>.
\<close>

datatype fn = Fn_getLastTimestamp | Fn_bunyanTrace | Fn_user nat

datatype err_class = ErrorC | TypeErrorC | SyntaxErrorC

datatype js_value =
    JUndefined
  | JNull
  | JBool bool
  | JNum int
  | JStr string
  | JFun fn
  | JTimestamp int int
  | JError err_class string
  | JArr "js_value list"
  | JObj "(string \<times> js_value) list"

fun typeof :: "js_value \<Rightarrow> string" where
  "typeof JUndefined = ''undefined''"
| "typeof JNull = ''object''"
| "typeof (JBool b) = ''boolean''"
| "typeof (JNum n) = ''number''"
| "typeof (JStr s) = ''string''"
| "typeof (JFun f) = ''function''"
| "typeof (JTimestamp l h) = ''object''"
| "typeof (JError c m) = ''object''"
| "typeof (JArr vs) = ''object''"
| "typeof (JObj ps) = ''object''"

text \<open>Truthiness, as \<^verbatim>\<open>if (v)\<close>, \<^verbatim>\<open>!v\<close> and \<^verbatim>\<open>v ? a : b\<close> read it.\<close>

fun truthy :: "js_value \<Rightarrow> bool" where
  "truthy JUndefined = False"
| "truthy JNull = False"
| "truthy (JBool b) = b"
| "truthy (JNum n) = (n \<noteq> 0)"
| "truthy (JStr s) = (s \<noteq> [])"
| "truthy v = True"

text \<open>
  The engine's own TypeError for a property read on \<^verbatim>\<open>null\<close> or \<^verbatim>\<open>undefined\<close>
  (the wording is V8's of the time; later versions word it differently).
\<close>

definition null_read :: "js_value \<Rightarrow> string \<Rightarrow> js_value" where
  "null_read v k = JError TypeErrorC
     (''Cannot read property '' @ [CHR 0x27] @ k @ [CHR 0x27] @ '' of '' @
        (if v = JNull then ''null'' else ''undefined''))"

text \<open>
  \<^verbatim>\<open>v.k\<close> for the property names the module reads (none of them is inherited from a
  prototype): an own property of an object literal, \<^verbatim>\<open>undefined\<close> on any other
  non-null value, a thrown TypeError on \<^verbatim>\<open>null\<close> and \<^verbatim>\<open>undefined\<close>.
\<close>

fun own_prop :: "js_value \<Rightarrow> string \<Rightarrow> js_value" where
  "own_prop (JObj ps) k = (case map_of ps k of Some v \<Rightarrow> v | None \<Rightarrow> JUndefined)"
| "own_prop v k = JUndefined"

definition get_prop :: "js_value \<Rightarrow> string \<Rightarrow> js_value + js_value" where
  "get_prop v k =
     (if v = JNull \<or> v = JUndefined then Inl (null_read v k) else Inr (own_prop v k))"

text \<open>
  \<^verbatim>\<open>v.k = x\<close> on an object literal: an existing property keeps its place, a new one
  is appended. \<^verbatim>\<open>validateArgs\<close> assigns only after it has read a string
  \<^verbatim>\<open>oplogURL\<close> from the object, which no other kind of value of this model has.
\<close>

fun set_prop :: "js_value \<Rightarrow> string \<Rightarrow> js_value \<Rightarrow> js_value" where
  "set_prop (JObj ps) k x = JObj (AList.update k x ps)"
| "set_prop v k x = v"

definition has_prop :: "js_value \<Rightarrow> string \<Rightarrow> bool" where
  "has_prop v k = (case v of JObj ps \<Rightarrow> k \<in> set (map fst ps) | _ \<Rightarrow> False)"

section \<open>Argument validation\<close>

definition default_to :: "js_value \<Rightarrow> string \<Rightarrow> js_value \<Rightarrow> js_value" where
  "default_to args k d = set_prop args k (if own_prop args k = JUndefined then d else own_prop args k)"

definition check_credentials :: "js_value \<Rightarrow> js_value + unit" where
  "check_credentials args =
     (let credentials = own_prop args ''credentials'' in
      if credentials \<noteq> JUndefined then
        if typeof credentials \<noteq> ''object'' then
          Inl (JError TypeErrorC ''credentials should be provided as an object'')
        else (case get_prop credentials ''username'' of Inl e \<Rightarrow> Inl e | Inr username \<Rightarrow>
          if \<not> truthy username then
            Inl (JError TypeErrorC ''credentials should have an attribute username that is a string'')
          else if typeof username \<noteq> ''string'' then
            Inl (JError TypeErrorC ''credentials should have an attribute username that is a string'')
          else (case get_prop credentials ''password'' of Inl e \<Rightarrow> Inl e | Inr password \<Rightarrow>
            if \<not> truthy password then
              Inl (JError TypeErrorC ''credentials should have an attribute password that is a string'')
            else if typeof password \<noteq> ''string'' then
              Inl (JError TypeErrorC ''credentials should have an attribute password that is a string'')
            else Inr ()))
      else Inr ())"

text \<open>
  \<^verbatim>\<open>validateArgs\<close>, check by check in the source's order. \<^verbatim>\<open>Inl\<close> is the thrown
  value, \<^verbatim>\<open>Inr\<close> the returned options object (the argument itself, with the defaults
  assigned).
\<close>

definition validateArgs :: "js_value \<Rightarrow> js_value + js_value" where
  "validateArgs args0 =
     (let args = (if typeof args0 = ''string'' then JObj [(''oplogURL'', args0)] else args0) in
      if typeof args \<noteq> ''object'' then
        Inl (JError TypeErrorC ''argument should be a connectionstring or a map of options'')
      else (case get_prop args ''oplogURL'' of Inl e \<Rightarrow> Inl e | Inr oplogURL \<Rightarrow>
      if oplogURL = JUndefined then Inl (JError TypeErrorC ''oplogURL must be specified'')
      else if typeof oplogURL \<noteq> ''string'' then Inl (JError TypeErrorC ''oplogURL must be a string'')
      else
      let args = default_to args ''getLastTimestamp'' (JFun Fn_getLastTimestamp) in
      if typeof (own_prop args ''getLastTimestamp'') \<noteq> ''function'' then
        Inl (JError TypeErrorC
          ''getLastTimestamp should be a function that returns a Promise to a Mongo Timestamp'')
      else
      let args = default_to args ''database'' (JStr ''.*'') in
      if typeof (own_prop args ''database'') \<noteq> ''string'' then
        Inl (JError TypeErrorC ''database should be a string'')
      else
      let args = default_to args ''collection'' (JStr ''.*'') in
      if typeof (own_prop args ''collection'') \<noteq> ''string'' then
        Inl (JError TypeErrorC ''collection should be a string'')
      else (case check_credentials args of Inl e \<Rightarrow> Inl e | Inr _ \<Rightarrow>
      let args = default_to args ''retries'' (JNum 5) in
      if typeof (own_prop args ''retries'') \<noteq> ''number'' then
        Inl (JError TypeErrorC ''retries should be a number'')
      else
      let args = default_to args ''log'' (JFun Fn_bunyanTrace) in
      if typeof (own_prop args ''log'') \<noteq> ''function'' then
        Inl (JError TypeErrorC ''log should be a function that logs strings'')
      else
      let args = default_to args ''timestampTimeout'' (JNum 30000) in
      if typeof (own_prop args ''timestampTimeout'') \<noteq> ''number'' then
        Inl (JError TypeErrorC ''timestampTimeout should be a number'')
      else Inr args)))"

section \<open>Effects\<close>

text \<open>
  What the module does to the outside, in the order it does it: calls of the \<^verbatim>\<open>log\<close>
  function, signals emitted on the emitter, calls into the driver, and an exception that
  leaves a stream listener. A log argument built with \<^verbatim>\<open>+\<close> from a string and a
  non-string value keeps both parts (\<^verbatim>\<open>MsgPlus\<close>).
\<close>

datatype log_arg = Msg string | MsgPlus string js_value | Val js_value

datatype effect =
    Log log_arg
  | Emit string js_value
  | NewMongoClient string js_value
  | Collection string js_value
  | Find js_value js_value
  | Uncaught js_value

text \<open>A promise when the module looks at it: resolved, rejected, or never settled.\<close>

datatype 'a outcome = Resolved 'a | Rejected js_value | Pending

section \<open>Routing one oplog document\<close>

text \<open>
  \<^verbatim>\<open>s.match(p)\<close> with a string \<^verbatim>\<open>p\<close> compiles \<^verbatim>\<open>p\<close> as a regular expression and
  searches \<^verbatim>\<open>s\<close>. The engine is the runtime's, so it is a parameter: \<^verbatim>\<open>m s p\<close> is
  \<^verbatim>\<open>Inl e\<close> when the call throws \<^verbatim>\<open>e\<close> (a pattern that does not compile), and
  \<^verbatim>\<open>Inr b\<close> when it returns, \<^verbatim>\<open>b\<close> telling whether the result is a match (truthy)
  or \<^verbatim>\<open>null\<close>.
\<close>

type_synonym engine = "string \<Rightarrow> string \<Rightarrow> js_value + bool"

text \<open>The template literal \<^verbatim>\<open>`${args.database}\\.${args.collection}`\<close>.\<close>

definition ns_pattern :: "string \<Rightarrow> string \<Rightarrow> string" where
  "ns_pattern database collection = database @ [CHR 0x5C, CHR ''.''] @ collection"

text \<open>
  \<^verbatim>\<open>oplogEvent.ns.match(p)\<close>: a string is matched; \<^verbatim>\<open>null\<close> and \<^verbatim>\<open>undefined\<close> have no
  properties; any other value of a document read from the database has no callable
  \<^verbatim>\<open>match\<close>.
\<close>

definition ns_match :: "engine \<Rightarrow> js_value \<Rightarrow> string \<Rightarrow> js_value + bool" where
  "ns_match m ns p =
     (case ns of
        JStr s \<Rightarrow> m s p
      | JUndefined \<Rightarrow> Inl (null_read ns ''match'')
      | JNull \<Rightarrow> Inl (null_read ns ''match'')
      | _ \<Rightarrow> Inl (JError TypeErrorC ''oplogEvent.ns.match is not a function''))"

text \<open>
  The \<^verbatim>\<open>switch (oplogEvent.op)\<close> of \<^verbatim>\<open>routeEvent\<close>: the cases compare with
  \<^verbatim>\<open>===\<close>, there is no default.
\<close>

definition switch_op :: "js_value \<Rightarrow> effect list" where
  "switch_op oplogEvent =
     (let op = own_prop oplogEvent ''op'' in
      if op = JStr ''i'' then [Emit ''insert'' oplogEvent]
      else if op = JStr ''d'' then [Emit ''delete'' oplogEvent]
      else if op = JStr ''u'' then [Emit ''update'' oplogEvent]
      else [])"

text \<open>
  The test that opens \<^verbatim>\<open>routeEvent\<close>: \<^verbatim>\<open>oplogEvent.ns.match(pattern)\<close>, thrown value
  or verdict.
\<close>

definition filter_verdict :: "engine \<Rightarrow> string \<Rightarrow> string \<Rightarrow> js_value \<Rightarrow> js_value + bool" where
  "filter_verdict m database collection oplogEvent =
     (case get_prop oplogEvent ''ns'' of
        Inl e \<Rightarrow> Inl e
      | Inr ns \<Rightarrow> ns_match m ns (ns_pattern database collection))"

text \<open>
  \<^verbatim>\<open>routeEvent\<close>, with the closure's \<^verbatim>\<open>args.database\<close> and \<^verbatim>\<open>args.collection\<close>
  (strings, once \<^verbatim>\<open>validateArgs\<close> has returned) as arguments. The result is the
  signals emitted on the emitter, in order, or the value thrown.
\<close>

definition routeEvent :: "engine \<Rightarrow> string \<Rightarrow> string \<Rightarrow> js_value \<Rightarrow> js_value + effect list" where
  "routeEvent m database collection oplogEvent =
     (case filter_verdict m database collection oplogEvent of
        Inl e \<Rightarrow> Inl e
      | Inr matched \<Rightarrow>
          if \<not> matched then Inr []
          else Inr (Emit ''op'' oplogEvent # switch_op oplogEvent))"

text \<open>
  What a listener registered with \<^verbatim>\<open>emitter.on(name, listener)\<close> is called with, in
  order.
\<close>

fun received :: "string \<Rightarrow> effect list \<Rightarrow> js_value list" where
  "received name [] = []"
| "received name (Emit n v # es) = (if n = name then v # received name es else received name es)"
| "received name (e # es) = received name es"

section \<open>The tailing stream\<close>

text \<open>
  The stream of the tailable cursor calls the \<^verbatim>\<open>data\<close> listener (\<^verbatim>\<open>routeEvent\<close>) once
  per document, in order, and the \<^verbatim>\<open>end\<close> listener when it ends. An exception thrown
  by a listener is not caught by the module; the model records it and stops there.
\<close>

datatype stream_event = Data js_value | End

fun on_stream :: "engine \<Rightarrow> string \<Rightarrow> string \<Rightarrow> stream_event list \<Rightarrow> effect list" where
  "on_stream m database collection [] = []"
| "on_stream m database collection (Data doc # evs) =
     (case routeEvent m database collection doc of
        Inl e \<Rightarrow> [Uncaught e]
      | Inr signals \<Rightarrow> signals @ on_stream m database collection evs)"
| "on_stream m database collection (End # evs) =
     Log (Msg ''Tailable cursor was closed'') #
     Emit ''error'' (JError ErrorC ''Database cursor closed unexpectedly'') #
     on_stream m database collection evs"

section \<open>Finding the oplog collection\<close>

text \<open>
  \<^verbatim>\<open>db.collection(name, opts, callback)\<close> answers by calling \<^verbatim>\<open>callback(error, coll)\<close>
  once; a database handle is the function from the name and the options to that pair of
  arguments.
\<close>

type_synonym 'c db = "string \<Rightarrow> js_value \<Rightarrow> js_value \<times> 'c"

definition strict :: js_value where
  "strict = JObj [(''strict'', JBool True)]"

definition getOplogCollection :: "'c db \<Rightarrow> effect list \<times> 'c outcome" where
  "getOplogCollection db =
     (let (error, oplog) = db ''oplog.rs'' strict in
      if truthy error then
        (let (error2, mainOplog) = db ''oplog.$main'' strict in
         if truthy error2 then
           ([Collection ''oplog.rs'' strict, Log (Val error),
             Collection ''oplog.$main'' strict, Log (Val error2)],
            Rejected (JError ErrorC
              ''Could not find oplog collection. Make sure mongodb is configured for replication''))
         else
           ([Collection ''oplog.rs'' strict, Log (Val error),
             Collection ''oplog.$main'' strict],
            Resolved mainOplog))
      else ([Collection ''oplog.rs'' strict], Resolved oplog))"

section \<open>Connecting\<close>

text \<open>
  \<^verbatim>\<open>new MongoClient(url, options).connect()\<close> is the driver's: a parameter giving the
  outcome of the connection, a client being the function from a database name to its
  handle.
\<close>

type_synonym 'c client = "string \<Rightarrow> 'c db"

definition connect_options :: "js_value \<Rightarrow> js_value" where
  "connect_options credentials =
     (if truthy credentials then
        JObj [(''auth'', JObj [(''user'', own_prop credentials ''username''),
                               (''password'', own_prop credentials ''password'')]),
              (''authSource'', JStr ''adming'')]
      else JObj [])"

definition connectToMongo ::
  "(string \<Rightarrow> js_value \<Rightarrow> 'c client outcome) \<Rightarrow> string \<Rightarrow> js_value \<Rightarrow> effect list \<times> 'c outcome" where
  "connectToMongo connect oplogURL credentials =
     (let options = connect_options credentials;
          before = [Log (Msg (''Connecting to mongodb: '' @ oplogURL)),
                    NewMongoClient oplogURL options]
      in case connect oplogURL options of
           Resolved client \<Rightarrow>
             (let (effects, result) = getOplogCollection (client ''local'')
              in (before @ effects, result))
         | Rejected e \<Rightarrow> (before, Rejected e)
         | Pending \<Rightarrow> (before, Pending))"

section \<open>The constructor\<close>

text \<open>
  A collection handle, as far as the module uses it: \<^verbatim>\<open>oplog.find(query, options).stream()\<close>,
  the events its stream delivers.
\<close>

type_synonym collection = "js_value \<Rightarrow> js_value \<Rightarrow> stream_event list"

fun instanceof_Timestamp :: "js_value \<Rightarrow> bool" where
  "instanceof_Timestamp (JTimestamp l h) = True"
| "instanceof_Timestamp v = False"

text \<open>
  The default checkpoint provider, \<^verbatim>\<open>now\<close> being \<^verbatim>\<open>new Date().getTime()\<close>: a promise
  resolved with \<^verbatim>\<open>new Timestamp(0, Math.floor(now / 1000))\<close>.
\<close>

definition getLastTimestamp :: "int \<Rightarrow> js_value outcome" where
  "getLastTimestamp now = Resolved (JTimestamp 0 (now div 1000))"

text \<open>The \<^verbatim>\<open>query\<close> and \<^verbatim>\<open>options\<close> constants of the tailing cursor.\<close>

definition tail_query :: "js_value \<Rightarrow> js_value" where
  "tail_query lastTimestamp = JObj [(''ts'', JObj [(''$gt'', lastTimestamp)])]"

definition tail_options :: js_value where
  "tail_options = JObj [(''tailable'', JBool True), (''awaitdata'', JBool True),
                        (''oplogReplay'', JBool True), (''numberOfRetries'', JNum (- 1))]"

text \<open>The handler of the second \<^verbatim>\<open>then\<close>: \<^verbatim>\<open>Inl\<close> is what it throws.\<close>

definition on_timestamp ::
  "engine \<Rightarrow> string \<Rightarrow> string \<Rightarrow> collection \<Rightarrow> js_value \<Rightarrow> js_value + effect list" where
  "on_timestamp m database collection oplog lastTimestamp =
     (if \<not> instanceof_Timestamp lastTimestamp then
        Inl (JError ErrorC ''getLastTimestamp() should return a mongodb.Timestamp'')
      else
        (let query = tail_query lastTimestamp;
             options = tail_options
         in Inr (Log (MsgPlus ''Opening tailable cursor to the oplog with timestamp: '' lastTimestamp) #
                 Find query options #
                 on_stream m database collection (oplog query options))))"

text \<open>The handler of the final \<^verbatim>\<open>catch\<close>.\<close>

definition on_catch :: "js_value \<Rightarrow> effect" where
  "on_catch errors =
     (let error = (case errors of
                     JArr es \<Rightarrow> (if es = [] then JUndefined else last es)
                   | _ \<Rightarrow> errors);
          error = (if error = JStr ''master timeout''
                   then JError ErrorC ''getLastTimestamp did not resolve before the timeout''
                   else error)
      in Emit ''error'' error)"

text \<open>
  The promise chain of the constructor, given validated options. The two \<^verbatim>\<open>poller\<close>
  calls are the library's: \<^verbatim>\<open>connected\<close> is the outcome of the first (its task is
  \<^verbatim>\<open>connectToMongo\<close>), \<^verbatim>\<open>timestamp\<close> that of the second (its task is
  \<^verbatim>\<open>args.getLastTimestamp\<close>, under \<^verbatim>\<open>masterTimeout\<close>).
\<close>

definition chain ::
  "engine \<Rightarrow> string \<Rightarrow> string \<Rightarrow> collection outcome \<Rightarrow> js_value outcome \<Rightarrow> effect list" where
  "chain m database collection connected timestamp =
     (case connected of
        Pending \<Rightarrow> []
      | Rejected errors \<Rightarrow> [on_catch errors]
      | Resolved oplog \<Rightarrow>
          Log (Msg ''Connected to mongodb local collection'') #
          (case timestamp of
             Pending \<Rightarrow> []
           | Rejected errors \<Rightarrow> [on_catch errors]
           | Resolved lastTimestamp \<Rightarrow>
               (case on_timestamp m database collection oplog lastTimestamp of
                  Inl e \<Rightarrow> [on_catch e]
                | Inr effects \<Rightarrow> effects)))"

text \<open>
  \<^verbatim>\<open>new OplogEmitter(args)\<close>: \<^verbatim>\<open>Inl\<close> is what the constructor throws, \<^verbatim>\<open>Inr\<close> the
  effects of the instance. \<^verbatim>\<open>validateArgs\<close> returns only options whose \<^verbatim>\<open>database\<close>
  and \<^verbatim>\<open>collection\<close> are strings (lemma \<open>validateArgs_filter_strings\<close>), so the two
  inner error branches are never taken; they repeat what \<^verbatim>\<open>validateArgs\<close> throws.
\<close>

definition OplogEmitter ::
  "engine \<Rightarrow> js_value \<Rightarrow> collection outcome \<Rightarrow> js_value outcome \<Rightarrow> js_value + effect list" where
  "OplogEmitter m args0 connected timestamp =
     (case validateArgs args0 of
        Inl e \<Rightarrow> Inl e
      | Inr args \<Rightarrow>
          (case own_prop args ''database'' of
             JStr database \<Rightarrow>
               (case own_prop args ''collection'' of
                  JStr collection \<Rightarrow> Inr (chain m database collection connected timestamp)
                | _ \<Rightarrow> Inl (JError TypeErrorC ''collection should be a string''))
           | _ \<Rightarrow> Inl (JError TypeErrorC ''database should be a string'')))"

section \<open>The runtime's match\<close>

text \<open>
  \<^verbatim>\<open>s.match(p)\<close> with a string \<^verbatim>\<open>p\<close>, as ECMAScript defines it: the pattern is compiled
  without flags, which throws a SyntaxError or gives the pattern's matcher; the matcher is
  tried on \<^verbatim>\<open>s\<close> from index 0, then 1, and so on up to the length of \<^verbatim>\<open>s\<close>; the call
  returns a match for the first index where the matcher succeeds and \<^verbatim>\<open>null\<close> when there
  is none. The compiler is the runtime's, a parameter; \<^verbatim>\<open>matcher s i\<close> tells whether the
  compiled pattern matches in \<^verbatim>\<open>s\<close> starting at index \<^verbatim>\<open>i\<close>.
\<close>

type_synonym matcher = "string \<Rightarrow> nat \<Rightarrow> bool"

type_synonym compiler = "string \<Rightarrow> js_value + matcher"

definition RegExpBuiltinExec :: "matcher \<Rightarrow> string \<Rightarrow> bool" where
  "RegExpBuiltinExec matcher s = list_ex (matcher s) [0..<Suc (length s)]"

definition string_match :: "compiler \<Rightarrow> engine" where
  "string_match compile s p =
     (case compile p of
        Inl e \<Rightarrow> Inl e
      | Inr matcher \<Rightarrow> Inr (RegExpBuiltinExec matcher s))"

section \<open>A fragment of the pattern language\<close>

text \<open>
  The patterns built from ordinary characters, \<^verbatim>\<open>.\<close>, an escaped syntax character and
  a postfix \<^verbatim>\<open>*\<close>, with the meaning ECMAScript gives them. A \<^verbatim>\<open>char\<close> stands for a
  code unit below 256. Every other pattern is outside the fragment
  (\<^verbatim>\<open>regex_parse\<close> gives \<^verbatim>\<open>None\<close>).
\<close>

datatype atom = Lit char | AnyChar

datatype item = One atom | Many atom

datatype token = TAtom atom | TStar

definition line_terminator :: "char \<Rightarrow> bool" where
  "line_terminator c = (c = CHR 0x0A \<or> c = CHR 0x0D)"

fun atom_ok :: "atom \<Rightarrow> char \<Rightarrow> bool" where
  "atom_ok (Lit a) c = (a = c)"
| "atom_ok AnyChar c = (\<not> line_terminator c)"

definition syntax_char :: "char \<Rightarrow> bool" where
  "syntax_char c = (c \<in> set ''^$.*+?()[]{}|'' \<or> c = CHR 0x5C)"

fun tokens :: "string \<Rightarrow> token list option" where
  "tokens [] = Some []"
| "tokens (c # cs) =
     (if c = CHR 0x5C then
        (case cs of
           [] \<Rightarrow> None
         | d # ds \<Rightarrow>
             if syntax_char d \<or> d = CHR ''/''
             then map_option ((#) (TAtom (Lit d))) (tokens ds)
             else None)
      else if c = CHR ''.'' then map_option ((#) (TAtom AnyChar)) (tokens cs)
      else if c = CHR ''*'' then map_option ((#) TStar) (tokens cs)
      else if syntax_char c then None
      else map_option ((#) (TAtom (Lit c))) (tokens cs))"

fun items :: "token list \<Rightarrow> item list option" where
  "items [] = Some []"
| "items (TAtom a # TStar # ts) = map_option ((#) (Many a)) (items ts)"
| "items (TAtom a # ts) = map_option ((#) (One a)) (items ts)"
| "items (TStar # ts) = None"

definition regex_parse :: "string \<Rightarrow> item list option" where
  "regex_parse p = (case tokens p of None \<Rightarrow> None | Some ts \<Rightarrow> items ts)"

text \<open>Does the pattern match a prefix of the string.\<close>

fun match_here :: "item list \<Rightarrow> string \<Rightarrow> bool" where
  "match_here [] s = True"
| "match_here (One a # r) [] = False"
| "match_here (One a # r) (c # cs) = (atom_ok a c \<and> match_here r cs)"
| "match_here (Many a # r) [] = match_here r []"
| "match_here (Many a # r) (c # cs) =
     (match_here r (c # cs) \<or> (atom_ok a c \<and> match_here (Many a # r) cs))"

text \<open>The strings a pattern of the fragment denotes.\<close>

fun lang :: "item list \<Rightarrow> string set" where
  "lang [] = {[]}"
| "lang (One a # r) = {c # w | c w. atom_ok a c \<and> w \<in> lang r}"
| "lang (Many a # r) = {u @ w | u w. (\<forall>c \<in> set u. atom_ok a c) \<and> w \<in> lang r}"

text \<open>
  The matcher of a pattern of the fragment: no item looks at what precedes the index.
\<close>

definition fragment_matcher :: "item list \<Rightarrow> matcher" where
  "fragment_matcher r s i = match_here r (drop i s)"

text \<open>
  A compiler that gives the patterns of the fragment their meaning and does as
  \<^verbatim>\<open>other\<close> on every other pattern, and the engine it makes.
\<close>

definition fragment_compile :: "compiler \<Rightarrow> compiler" where
  "fragment_compile other p =
     (case regex_parse p of
        Some r \<Rightarrow> Inr (fragment_matcher r)
      | None \<Rightarrow> other p)"

definition fragment_engine :: "compiler \<Rightarrow> engine" where
  "fragment_engine other = string_match (fragment_compile other)"

section \<open>Evaluations at concrete inputs\<close>

lemma exec_fragment_Nil: "RegExpBuiltinExec (fragment_matcher r) [] = match_here r []"
  by (simp add: RegExpBuiltinExec_def fragment_matcher_def)

lemma list_ex_fragment_shift:
  "list_ex (fragment_matcher r (c # cs)) (0 # map Suc xs) =
     (match_here r (c # cs) \<or> list_ex (fragment_matcher r cs) xs)"
  by (induction xs) (auto simp add: fragment_matcher_def)

lemma exec_fragment_Cons:
  "RegExpBuiltinExec (fragment_matcher r) (c # cs) =
     (match_here r (c # cs) \<or> RegExpBuiltinExec (fragment_matcher r) cs)"
proof -
  have "[0..<Suc (Suc (length cs))] = 0 # map Suc [0..<Suc (length cs)]"
    by (simp only: upt_conv_Cons [of 0 "Suc (Suc (length cs))"] map_Suc_upt zero_less_Suc)
  then show ?thesis
    by (simp only: RegExpBuiltinExec_def list.size list_ex_fragment_shift add_Suc_right
        add_0_right)
qed

lemma fragment_engine_parsed:
  "regex_parse p = Some r \<Longrightarrow>
   fragment_engine other s p = Inr (RegExpBuiltinExec (fragment_matcher r) s)"
  by (simp add: fragment_engine_def string_match_def fragment_compile_def)

lemma default_pattern_parse:
  "regex_parse (ns_pattern ''.*'' ''.*'') = Some [Many AnyChar, One (Lit CHR ''.''), Many AnyChar]"
  by (simp add: regex_parse_def ns_pattern_def syntax_char_def)

lemma verdict_default_example:
  "filter_verdict (fragment_engine other) ''.*'' ''.*''
     (JObj [(''ns'', JStr ''db.c''), (''op'', JStr x)]) = Inr True"
  by (simp add: filter_verdict_def get_prop_def ns_match_def
      fragment_engine_parsed [OF default_pattern_parse]
      exec_fragment_Nil exec_fragment_Cons line_terminator_def)

lemma records_pattern_parse:
  "regex_parse (ns_pattern ''ab'' ''cd'') =
     Some [One (Lit CHR ''a''), One (Lit CHR ''b''), One (Lit CHR ''.''),
           One (Lit CHR ''c''), One (Lit CHR ''d'')]"
  by (simp add: regex_parse_def ns_pattern_def syntax_char_def)

lemma verdict_records_other:
  "filter_verdict (fragment_engine other) ''ab'' ''cd'' (JObj [(''ns'', JStr ''db.c''), (''op'', JStr x)]) =
     Inr False"
  by (simp add: filter_verdict_def get_prop_def ns_match_def
      fragment_engine_parsed [OF records_pattern_parse] exec_fragment_Nil exec_fragment_Cons)

lemma verdict_records_same:
  "filter_verdict (fragment_engine other) ''ab'' ''cd'' (JObj [(''ns'', JStr ''ab.cd''), (''op'', JStr x)]) =
     Inr True"
  by (simp add: filter_verdict_def get_prop_def ns_match_def
      fragment_engine_parsed [OF records_pattern_parse] exec_fragment_Nil exec_fragment_Cons)

lemma a_b_parse:
  "regex_parse (ns_pattern ''a'' ''b'') =
     Some [One (Lit CHR ''a''), One (Lit CHR ''.''), One (Lit CHR ''b'')]"
  by (simp add: regex_parse_def ns_pattern_def syntax_char_def)

lemma c_t_parse:
  "regex_parse (ns_pattern ''c.t'' ''x'') =
     Some [One (Lit CHR ''c''), One AnyChar, One (Lit CHR ''t''), One (Lit CHR ''.''),
           One (Lit CHR ''x'')]"
  by (simp add: regex_parse_def ns_pattern_def syntax_char_def)

lemma validateArgs_test:
  "validateArgs (JStr ''test'') =
     Inr (JObj [(''oplogURL'', JStr ''test''), (''getLastTimestamp'', JFun Fn_getLastTimestamp),
                (''database'', JStr ''.*''), (''collection'', JStr ''.*''),
                (''retries'', JNum 5), (''log'', JFun Fn_bunyanTrace),
                (''timestampTimeout'', JNum 30000)])"
  by (simp add: validateArgs_def get_prop_def default_to_def check_credentials_def)

section \<open>Properties of argument validation\<close>

lemma typeof_string_iff: "typeof v = ''string'' \<longleftrightarrow> (\<exists>s. v = JStr s)"
  by (cases v) simp_all

text \<open>
  C3, as the code has it. An argument whose \<^verbatim>\<open>typeof\<close> is neither \<^verbatim>\<open>'string'\<close> nor
  \<^verbatim>\<open>'object'\<close> (undefined, a boolean, a number, a function) makes \<^verbatim>\<open>validateArgs\<close>
  throw, at its first check, a TypeError with the message
  \<^verbatim>\<open>argument should be a connectionstring or a map of options\<close>.
\<close>

theorem validateArgs_rejects_non_object:
  assumes "typeof v \<noteq> ''string''" and "typeof v \<noteq> ''object''"
  shows "validateArgs v =
    Inl (JError TypeErrorC ''argument should be a connectionstring or a map of options'')"
  using assms by (simp add: validateArgs_def)

theorem validateArgs_rejects_non_object_witness:
  "typeof (JBool False) \<noteq> ''string'' \<and> typeof (JBool False) \<noteq> ''object'' \<and>
   validateArgs (JBool False) =
     Inl (JError TypeErrorC ''argument should be a connectionstring or a map of options'')"
proof -
  have h1: "typeof (JBool False) \<noteq> ''string''" by simp
  have h2: "typeof (JBool False) \<noteq> ''object''" by simp
  from validateArgs_rejects_non_object [OF h1 h2] h1 h2 show ?thesis by blast
qed

text \<open>
  C3, as the specification words it, fails twice: on \<^verbatim>\<open>undefined\<close> the message thrown
  reads \<^verbatim>\<open>connectionstring\<close>, not \<^verbatim>\<open>connection string\<close>; and \<^verbatim>\<open>null\<close>, whose
  \<^verbatim>\<open>typeof\<close> is \<^verbatim>\<open>'object'\<close>, passes the first check and fails in the read of
  \<^verbatim>\<open>args.oplogURL\<close>, with the engine's TypeError and neither message.
\<close>

theorem validateArgs_message_and_null_counterexample:
  "validateArgs JUndefined =
     Inl (JError TypeErrorC ''argument should be a connectionstring or a map of options'') \<and>
   validateArgs JUndefined \<noteq>
     Inl (JError TypeErrorC ''argument should be a connection string or a map of options'') \<and>
   validateArgs JNull = Inl (null_read JNull ''oplogURL'') \<and>
   validateArgs JNull \<noteq>
     Inl (JError TypeErrorC ''argument should be a connection string or a map of options'') \<and>
   validateArgs JNull \<noteq>
     Inl (JError TypeErrorC ''argument should be a connectionstring or a map of options'')"
  by (simp add: validateArgs_def get_prop_def null_read_def)

text \<open>
  C4. Given only \<^verbatim>\<open>{oplogURL: u}\<close> with a string \<^verbatim>\<open>u\<close>, validation succeeds and the
  options returned have \<^verbatim>\<open>database = '.*'\<close>, \<^verbatim>\<open>collection = '.*'\<close>, \<^verbatim>\<open>retries = 5\<close>,
  \<^verbatim>\<open>timestampTimeout = 30000\<close>, the module's own \<^verbatim>\<open>getLastTimestamp\<close>, and no
  \<^verbatim>\<open>credentials\<close> property.
\<close>

theorem validateArgs_defaults:
  "\<exists>cfg. validateArgs (JObj [(''oplogURL'', JStr u)]) = Inr cfg \<and>
     own_prop cfg ''oplogURL'' = JStr u \<and>
     own_prop cfg ''database'' = JStr ''.*'' \<and>
     own_prop cfg ''collection'' = JStr ''.*'' \<and>
     own_prop cfg ''retries'' = JNum 5 \<and>
     own_prop cfg ''timestampTimeout'' = JNum 30000 \<and>
     own_prop cfg ''getLastTimestamp'' = JFun Fn_getLastTimestamp \<and>
     \<not> has_prop cfg ''credentials''"
  by (simp add: validateArgs_def get_prop_def default_to_def check_credentials_def has_prop_def)

theorem validateArgs_defaults_witness:
  "\<exists>cfg. validateArgs (JObj [(''oplogURL'', JStr ''x'')]) = Inr cfg \<and>
     own_prop cfg ''database'' = JStr ''.*'' \<and>
     own_prop cfg ''collection'' = JStr ''.*'' \<and>
     own_prop cfg ''retries'' = JNum 5 \<and>
     own_prop cfg ''timestampTimeout'' = JNum 30000 \<and>
     own_prop cfg ''getLastTimestamp'' = JFun Fn_getLastTimestamp \<and>
     \<not> has_prop cfg ''credentials''"
  using validateArgs_defaults [of "''x''"] by blast

section \<open>Properties of routing\<close>

lemma routeEvent_cases:
  "filter_verdict m database collection doc = Inr b \<Longrightarrow>
   routeEvent m database collection doc =
     Inr (if b then Emit ''op'' doc # switch_op doc else [])"
  by (simp add: routeEvent_def)

text \<open>
  C1. An event whose namespace matches the filter makes \<^verbatim>\<open>routeEvent\<close> emit \<^verbatim>\<open>op\<close>
  first and then the one signal its operation code selects (\<^verbatim>\<open>insert\<close> for \<^verbatim>\<open>i\<close>,
  \<^verbatim>\<open>delete\<close> for \<^verbatim>\<open>d\<close>, \<^verbatim>\<open>update\<close> for \<^verbatim>\<open>u\<close>), both with the event itself; with
  any other operation code it emits \<^verbatim>\<open>op\<close> alone.
\<close>

theorem routeEvent_signals:
  assumes "filter_verdict m database collection ev = Inr True"
  shows "routeEvent m database collection ev =
    Inr (if own_prop ev ''op'' = JStr ''i'' then [Emit ''op'' ev, Emit ''insert'' ev]
         else if own_prop ev ''op'' = JStr ''d'' then [Emit ''op'' ev, Emit ''delete'' ev]
         else if own_prop ev ''op'' = JStr ''u'' then [Emit ''op'' ev, Emit ''update'' ev]
         else [Emit ''op'' ev])"
  using assms by (simp add: routeEvent_def switch_op_def)

theorem routeEvent_signals_witness:
  "\<forall>other.
   filter_verdict (fragment_engine other) ''.*'' ''.*''
     (JObj [(''ns'', JStr ''db.c''), (''op'', JStr ''i'')]) = Inr True \<and>
   routeEvent (fragment_engine other) ''.*'' ''.*'' (JObj [(''ns'', JStr ''db.c''), (''op'', JStr ''i'')]) =
     Inr [Emit ''op'' (JObj [(''ns'', JStr ''db.c''), (''op'', JStr ''i'')]),
          Emit ''insert'' (JObj [(''ns'', JStr ''db.c''), (''op'', JStr ''i'')])] \<and>
   filter_verdict (fragment_engine other) ''.*'' ''.*''
     (JObj [(''ns'', JStr ''db.c''), (''op'', JStr ''n'')]) = Inr True \<and>
   routeEvent (fragment_engine other) ''.*'' ''.*'' (JObj [(''ns'', JStr ''db.c''), (''op'', JStr ''n'')]) =
     Inr [Emit ''op'' (JObj [(''ns'', JStr ''db.c''), (''op'', JStr ''n'')])]"
  (is "\<forall>other. ?P other")
proof
  fix other :: compiler
  have h1: "filter_verdict (fragment_engine other) ''.*'' ''.*''
     (JObj [(''ns'', JStr ''db.c''), (''op'', JStr ''i'')]) = Inr True"
    by (rule verdict_default_example)
  have h2: "filter_verdict (fragment_engine other) ''.*'' ''.*''
     (JObj [(''ns'', JStr ''db.c''), (''op'', JStr ''n'')]) = Inr True"
    by (rule verdict_default_example)
  from routeEvent_signals [OF h1] routeEvent_signals [OF h2] h1 h2 show "?P other" by simp
qed

lemma received_append: "received name (xs @ ys) = received name xs @ received name ys"
  by (induction name xs rule: received.induct) simp_all

lemma received_op_switch_op: "received ''op'' (switch_op doc) = []"
  by (simp add: switch_op_def Let_def)

lemma on_stream_concat:
  assumes "\<forall>doc \<in> set docs. \<exists>b. filter_verdict m database collection doc = Inr b"
  shows "on_stream m database collection (map Data docs) =
           concat (map (\<lambda>doc. if filter_verdict m database collection doc = Inr True
                               then Emit ''op'' doc # switch_op doc else []) docs)"
  using assms
proof (induction docs)
  case Nil
  then show ?case by simp
next
  case (Cons doc docs)
  then obtain b where b: "filter_verdict m database collection doc = Inr b" by auto
  from Cons have IH: "on_stream m database collection (map Data docs) =
           concat (map (\<lambda>doc. if filter_verdict m database collection doc = Inr True
                               then Emit ''op'' doc # switch_op doc else []) docs)"
    by simp
  show ?case
    using b by (cases b) (simp_all add: routeEvent_cases IH)
qed

lemma received_op_concat:
  "received ''op'' (concat (map (\<lambda>doc. if P doc then Emit ''op'' doc # switch_op doc else []) docs)) =
     filter P docs"
  by (induction docs) (simp_all add: received_append received_op_switch_op)

text \<open>
  C2. Fed a finite sequence of documents, none of which makes the filter test throw, the
  \<^verbatim>\<open>data\<close> listener emits nothing for a document whose namespace does not match and the
  signals of each matching document in input order: the \<^verbatim>\<open>op\<close> listener receives
  exactly the matching documents, in order, each once.
\<close>

theorem on_stream_filters_in_order:
  assumes "\<forall>doc \<in> set docs. \<exists>b. filter_verdict m database collection doc = Inr b"
  shows "on_stream m database collection (map Data docs) =
           concat (map (\<lambda>doc. if filter_verdict m database collection doc = Inr True
                               then Emit ''op'' doc # switch_op doc else []) docs) \<and>
         received ''op'' (on_stream m database collection (map Data docs)) =
           filter (\<lambda>doc. filter_verdict m database collection doc = Inr True) docs"
  by (simp only: on_stream_concat [OF assms] received_op_concat)

theorem on_stream_filters_in_order_witness:
  "\<forall>other.
   filter_verdict (fragment_engine other) ''ab'' ''cd''
     (JObj [(''ns'', JStr ''db.c''), (''op'', JStr ''i'')]) = Inr False \<and>
   filter_verdict (fragment_engine other) ''ab'' ''cd''
     (JObj [(''ns'', JStr ''ab.cd''), (''op'', JStr ''d'')]) = Inr True \<and>
   filter_verdict (fragment_engine other) ''ab'' ''cd''
     (JObj [(''ns'', JStr ''ab.cd''), (''op'', JStr ''u'')]) = Inr True \<and>
   received ''op'' (on_stream (fragment_engine other) ''ab'' ''cd''
     (map Data [JObj [(''ns'', JStr ''db.c''), (''op'', JStr ''i'')],
                JObj [(''ns'', JStr ''ab.cd''), (''op'', JStr ''d'')],
                JObj [(''ns'', JStr ''ab.cd''), (''op'', JStr ''u'')]])) =
     [JObj [(''ns'', JStr ''ab.cd''), (''op'', JStr ''d'')],
      JObj [(''ns'', JStr ''ab.cd''), (''op'', JStr ''u'')]]"
  (is "\<forall>other. ?P other")
proof
  fix other :: compiler
  let ?docs = "[JObj [(''ns'', JStr ''db.c''), (''op'', JStr ''i'')],
                JObj [(''ns'', JStr ''ab.cd''), (''op'', JStr ''d'')],
                JObj [(''ns'', JStr ''ab.cd''), (''op'', JStr ''u'')]]"
  have h: "\<forall>doc \<in> set ?docs. \<exists>b. filter_verdict (fragment_engine other) ''ab'' ''cd'' doc = Inr b"
    by (auto simp add: verdict_records_other verdict_records_same)
  have f: "filter (\<lambda>doc. filter_verdict (fragment_engine other) ''ab'' ''cd'' doc = Inr True) ?docs =
     [JObj [(''ns'', JStr ''ab.cd''), (''op'', JStr ''d'')],
      JObj [(''ns'', JStr ''ab.cd''), (''op'', JStr ''u'')]]"
    by (simp add: verdict_records_other verdict_records_same)
  from on_stream_filters_in_order [OF h] have
    "received ''op'' (on_stream (fragment_engine other) ''ab'' ''cd'' (map Data ?docs)) =
       filter (\<lambda>doc. filter_verdict (fragment_engine other) ''ab'' ''cd'' doc = Inr True) ?docs"
    by (rule conjunct2)
  with f have
    "received ''op'' (on_stream (fragment_engine other) ''ab'' ''cd'' (map Data ?docs)) =
       [JObj [(''ns'', JStr ''ab.cd''), (''op'', JStr ''d'')],
        JObj [(''ns'', JStr ''ab.cd''), (''op'', JStr ''u'')]]"
    by (simp only:)
  then show "?P other"
    using verdict_records_other [of other "''i''"] verdict_records_same [of other "''d''"]
      verdict_records_same [of other "''u''"]
    by blast
qed

section \<open>Properties of the pattern fragment\<close>

lemma lang_Many_mono: "w \<in> lang r \<Longrightarrow> w \<in> lang (Many a # r)"
proof -
  assume "w \<in> lang r"
  then have "[] @ w = w \<and> (\<forall>c \<in> set []. atom_ok a c) \<and> w \<in> lang r" by simp
  then show ?thesis by (simp del: append_Nil) (metis append_Nil empty_iff list.set(1))
qed

lemma lang_Many_step:
  "atom_ok a c \<Longrightarrow> w \<in> lang (Many a # r) \<Longrightarrow> c # w \<in> lang (Many a # r)"
proof -
  assume c: "atom_ok a c" and "w \<in> lang (Many a # r)"
  then obtain u w' where w: "w = u @ w'" "\<forall>x \<in> set u. atom_ok a x" "w' \<in> lang r" by auto
  have "c # w = (c # u) @ w'" "\<forall>x \<in> set (c # u). atom_ok a x" using w c by simp_all
  with w(3) show ?thesis unfolding lang.simps by blast
qed

lemma lang_Many_cases:
  assumes "w \<in> lang (Many a # r)"
  shows "w \<in> lang r \<or> (\<exists>c w'. w = c # w' \<and> atom_ok a c \<and> w' \<in> lang (Many a # r))"
proof -
  from assms obtain u w' where w: "w = u @ w'" "\<forall>x \<in> set u. atom_ok a x" "w' \<in> lang r" by auto
  show ?thesis
  proof (cases u)
    case Nil
    with w show ?thesis by simp
  next
    case (Cons c u')
    with w have "w = c # (u' @ w')" "atom_ok a c" "\<forall>x \<in> set u'. atom_ok a x" by simp_all
    moreover then have "u' @ w' \<in> lang (Many a # r)" using w(3) unfolding lang.simps by blast
    ultimately show ?thesis by blast
  qed
qed

lemma match_here_iff: "match_here r s \<longleftrightarrow> (\<exists>u v. s = u @ v \<and> u \<in> lang r)"
proof (induction r s rule: match_here.induct)
  case (1 s)
  show ?case by simp
next
  case (2 a r)
  show ?case by simp
next
  case (3 a r c cs)
  show ?case
  proof
    assume "match_here (One a # r) (c # cs)"
    then have "atom_ok a c" "match_here r cs" by simp_all
    with 3 obtain u v where "cs = u @ v" "u \<in> lang r" by blast
    then have "c # cs = (c # u) @ v" "c # u \<in> lang (One a # r)" using \<open>atom_ok a c\<close> by simp_all
    then show "\<exists>u v. c # cs = u @ v \<and> u \<in> lang (One a # r)" by blast
  next
    assume "\<exists>u v. c # cs = u @ v \<and> u \<in> lang (One a # r)"
    then obtain u v where uv: "c # cs = u @ v" "u \<in> lang (One a # r)" by blast
    then obtain c' w where u: "u = c' # w" "atom_ok a c'" "w \<in> lang r" by auto
    with uv have "c' = c" "cs = w @ v" by simp_all
    with u 3 show "match_here (One a # r) (c # cs)" by auto
  qed
next
  case (4 a r)
  have "[] \<in> lang (Many a # r) \<longleftrightarrow> [] \<in> lang r" by auto
  with 4 show ?case by simp
next
  case (5 a r c cs)
  show ?case
  proof
    assume "match_here (Many a # r) (c # cs)"
    then consider "match_here r (c # cs)" | "atom_ok a c" "match_here (Many a # r) cs" by auto
    then show "\<exists>u v. c # cs = u @ v \<and> u \<in> lang (Many a # r)"
    proof cases
      case 1
      with 5 obtain u v where "c # cs = u @ v" "u \<in> lang r" by blast
      then show ?thesis using lang_Many_mono by blast
    next
      case 2
      with 5 obtain u v where "cs = u @ v" "u \<in> lang (Many a # r)" by blast
      then have "c # cs = (c # u) @ v" "c # u \<in> lang (Many a # r)"
        using 2(1) lang_Many_step by simp_all
      then show ?thesis by blast
    qed
  next
    assume "\<exists>u v. c # cs = u @ v \<and> u \<in> lang (Many a # r)"
    then obtain u v where uv: "c # cs = u @ v" "u \<in> lang (Many a # r)" by blast
    from lang_Many_cases [OF uv(2)]
    show "match_here (Many a # r) (c # cs)"
    proof
      assume "u \<in> lang r"
      with uv(1) 5(1) have "match_here r (c # cs)" by blast
      then show ?thesis by simp
    next
      assume "\<exists>c' w'. u = c' # w' \<and> atom_ok a c' \<and> w' \<in> lang (Many a # r)"
      then obtain c' w' where u: "u = c' # w'" "atom_ok a c'" "w' \<in> lang (Many a # r)" by blast
      with uv(1) have c: "c' = c" "cs = w' @ v" by simp_all
      with u(3) 5(2) have "match_here (Many a # r) cs" by blast
      with u(2) c(1) show ?thesis by simp
    qed
  qed
qed

lemma exec_fragment_iff:
  "RegExpBuiltinExec (fragment_matcher r) s \<longleftrightarrow>
     (\<exists>pre mid post. s = pre @ mid @ post \<and> mid \<in> lang r)"
proof (induction s)
  case Nil
  show ?case by (simp add: exec_fragment_Nil match_here_iff)
next
  case (Cons c cs)
  show ?case
  proof
    assume "RegExpBuiltinExec (fragment_matcher r) (c # cs)"
    then consider "match_here r (c # cs)" | "RegExpBuiltinExec (fragment_matcher r) cs"
      by (auto simp add: exec_fragment_Cons)
    then show "\<exists>pre mid post. c # cs = pre @ mid @ post \<and> mid \<in> lang r"
    proof cases
      case 1
      then obtain u v where "c # cs = [] @ u @ v" "u \<in> lang r" by (auto simp: match_here_iff)
      then show ?thesis by blast
    next
      case 2
      with Cons obtain pre mid post where "cs = pre @ mid @ post" "mid \<in> lang r" by blast
      then have "c # cs = (c # pre) @ mid @ post" by simp
      with \<open>mid \<in> lang r\<close> show ?thesis by blast
    qed
  next
    assume "\<exists>pre mid post. c # cs = pre @ mid @ post \<and> mid \<in> lang r"
    then obtain pre mid post where p: "c # cs = pre @ mid @ post" "mid \<in> lang r" by blast
    show "RegExpBuiltinExec (fragment_matcher r) (c # cs)"
    proof (cases pre)
      case Nil
      with p have "match_here r (c # cs)" by (auto simp: match_here_iff)
      then show ?thesis by (simp add: exec_fragment_Cons)
    next
      case (Cons c' pre')
      with p have "cs = pre' @ mid @ post" by simp
      with p(2) Cons.IH have "RegExpBuiltinExec (fragment_matcher r) cs" by blast
      then show ?thesis by (simp add: exec_fragment_Cons)
    qed
  qed
qed

lemma exec_some_index:
  "RegExpBuiltinExec matcher s \<longleftrightarrow> (\<exists>i \<le> length s. matcher s i)"
  by (auto simp add: RegExpBuiltinExec_def list_ex_iff less_Suc_eq_le simp del: upt_Suc)

lemma tokens_plain_append:
  assumes "\<forall>c \<in> set s. \<not> syntax_char c"
  shows "tokens (s @ rest) = map_option ((@) (map (\<lambda>x. TAtom (Lit x)) s)) (tokens rest)"
  using assms
proof (induction s)
  case Nil
  show ?case by (simp add: option.map_ident)
next
  case (Cons c s)
  then have c: "\<not> syntax_char c" and IH: "tokens (s @ rest) = map_option ((@) (map (\<lambda>x. TAtom (Lit x)) s)) (tokens rest)"
    by simp_all
  from c have "c \<noteq> CHR 0x5C" "c \<noteq> CHR ''.''" "c \<noteq> CHR ''*''"
    by (auto simp add: syntax_char_def)
  with c show ?case by (simp add: IH option.map_comp comp_def)
qed

lemma tokens_plain:
  assumes "\<forall>c \<in> set s. \<not> syntax_char c"
  shows "tokens s = Some (map (\<lambda>x. TAtom (Lit x)) s)"
  using tokens_plain_append [OF assms, of "[]"] by simp

lemma items_literals: "items (map (\<lambda>x. TAtom (Lit x)) s) = Some (map (\<lambda>x. One (Lit x)) s)"
proof (induction s)
  case Nil
  show ?case by simp
next
  case (Cons c s)
  then show ?case by (cases s) simp_all
qed

lemma regex_parse_plain:
  assumes "\<forall>c \<in> set database. \<not> syntax_char c" and "\<forall>c \<in> set collection. \<not> syntax_char c"
  shows "regex_parse (ns_pattern database collection) =
           Some (map (\<lambda>x. One (Lit x)) (database @ ''.'' @ collection))"
proof -
  have "tokens (ns_pattern database collection) =
          Some (map (\<lambda>x. TAtom (Lit x)) (database @ ''.'' @ collection))"
    by (simp add: ns_pattern_def tokens_plain_append [OF assms(1)] tokens_plain [OF assms(2)]
        syntax_char_def)
  then show ?thesis by (simp add: regex_parse_def items_literals del: map_append)
qed

lemma lang_literals: "lang (map (\<lambda>x. One (Lit x)) p) = {p}"
  by (induction p) auto

lemma exec_literals:
  "RegExpBuiltinExec (fragment_matcher (map (\<lambda>x. One (Lit x)) p)) s \<longleftrightarrow> sublist p s"
  by (simp add: exec_fragment_iff lang_literals sublist_def)

text \<open>
  With a database and a collection name free of syntax characters, an event is routed
  exactly when \<^verbatim>\<open>database.collection\<close> occurs somewhere in its namespace.
\<close>

lemma plain_filter_is_substring:
  assumes "\<forall>c \<in> set database. \<not> syntax_char c" and "\<forall>c \<in> set collection. \<not> syntax_char c"
      and "get_prop ev ''ns'' = Inr (JStr ns)"
  shows "routeEvent (fragment_engine other) database collection ev =
           Inr (if sublist (database @ ''.'' @ collection) ns
                then Emit ''op'' ev # switch_op ev else [])"
  using assms(3)
  by (simp add: routeEvent_def filter_verdict_def ns_match_def
      fragment_engine_parsed [OF regex_parse_plain [OF assms(1,2)]] exec_literals
      del: map_append)

text \<open>
  C10. For every database and collection string and every pattern compiler, the router
  hands the runtime the pattern made of \<^verbatim>\<open>database\<close>, a backslash, a dot and
  \<^verbatim>\<open>collection\<close>, the two strings as they are, and routes the event exactly when the
  compiled pattern matches at some index of the namespace, from 0 to its length: the
  pattern is searched for, not anchored, and nothing in it is escaped. For a pattern of
  the fragment that means: some part of the namespace, anywhere in it, is in the
  pattern's language. So a namespace other than \<^verbatim>\<open>database.collection\<close> can match.
\<close>

theorem namespace_filter_is_unanchored_regex:
  assumes "get_prop ev ''ns'' = Inr (JStr ns)"
  shows "routeEvent (string_match compile) database collection ev =
           (case compile (database @ [CHR 0x5C, CHR ''.''] @ collection) of
              Inl e \<Rightarrow> Inl e
            | Inr matcher \<Rightarrow>
                Inr (if \<exists>i \<le> length ns. matcher ns i
                     then Emit ''op'' ev # switch_op ev else [])) \<and>
    (\<forall>r. regex_parse (database @ [CHR 0x5C, CHR ''.''] @ collection) = Some r \<longrightarrow>
       (routeEvent (fragment_engine compile) database collection ev =
          Inr (Emit ''op'' ev # switch_op ev)
        \<longleftrightarrow> (\<exists>pre mid post. ns = pre @ mid @ post \<and> mid \<in> lang r)) \<and>
       (routeEvent (fragment_engine compile) database collection ev = Inr []
        \<longleftrightarrow> \<not> (\<exists>pre mid post. ns = pre @ mid @ post \<and> mid \<in> lang r)))"
proof -
  have verdict: "filter_verdict m database collection ev =
      m ns (database @ [CHR 0x5C, CHR ''.''] @ collection)" for m
    using assms by (simp add: filter_verdict_def ns_match_def ns_pattern_def)
  have general: "routeEvent (string_match compile) database collection ev =
           (case compile (database @ [CHR 0x5C, CHR ''.''] @ collection) of
              Inl e \<Rightarrow> Inl e
            | Inr matcher \<Rightarrow>
                Inr (if \<exists>i \<le> length ns. matcher ns i
                     then Emit ''op'' ev # switch_op ev else []))"
    by (cases "compile (database @ [CHR 0x5C, CHR ''.''] @ collection)")
       (simp_all add: routeEvent_def verdict string_match_def exec_some_index)
  have fragment: "routeEvent (fragment_engine compile) database collection ev =
      Inr (if \<exists>pre mid post. ns = pre @ mid @ post \<and> mid \<in> lang r
           then Emit ''op'' ev # switch_op ev else [])"
    if "regex_parse (database @ [CHR 0x5C, CHR ''.''] @ collection) = Some r" for r
    using fragment_engine_parsed [OF that, of compile ns]
    by (simp add: routeEvent_def verdict exec_fragment_iff)
  show ?thesis
    using general fragment by simp
qed

theorem namespace_filter_is_unanchored_regex_witness:
  "\<forall>other.
   regex_parse (''a'' @ [CHR 0x5C, CHR ''.''] @ ''b'') =
     Some [One (Lit CHR ''a''), One (Lit CHR ''.''), One (Lit CHR ''b'')] \<and>
   get_prop (JObj [(''ns'', JStr ''xa.bz''), (''op'', JStr ''i'')]) ''ns'' = Inr (JStr ''xa.bz'') \<and>
   ''xa.bz'' \<noteq> ''a'' @ ''.'' @ ''b'' \<and>
   routeEvent (fragment_engine other) ''a'' ''b''
       (JObj [(''ns'', JStr ''xa.bz''), (''op'', JStr ''i'')]) =
     Inr (Emit ''op'' (JObj [(''ns'', JStr ''xa.bz''), (''op'', JStr ''i'')]) #
          switch_op (JObj [(''ns'', JStr ''xa.bz''), (''op'', JStr ''i'')])) \<and>
   regex_parse (''c.t'' @ [CHR 0x5C, CHR ''.''] @ ''x'') =
     Some [One (Lit CHR ''c''), One AnyChar, One (Lit CHR ''t''), One (Lit CHR ''.''),
           One (Lit CHR ''x'')] \<and>
   get_prop (JObj [(''ns'', JStr ''cat.x''), (''op'', JStr ''i'')]) ''ns'' = Inr (JStr ''cat.x'') \<and>
   ''cat.x'' \<noteq> ''c.t'' @ ''.'' @ ''x'' \<and>
   routeEvent (fragment_engine other) ''c.t'' ''x''
       (JObj [(''ns'', JStr ''cat.x''), (''op'', JStr ''i'')]) =
     Inr (Emit ''op'' (JObj [(''ns'', JStr ''cat.x''), (''op'', JStr ''i'')]) #
          switch_op (JObj [(''ns'', JStr ''cat.x''), (''op'', JStr ''i'')]))"
  (is "\<forall>other. ?P other")
proof
  fix other :: compiler
  have p1: "regex_parse (''a'' @ [CHR 0x5C, CHR ''.''] @ ''b'') =
     Some [One (Lit CHR ''a''), One (Lit CHR ''.''), One (Lit CHR ''b'')]"
    using a_b_parse by (simp add: ns_pattern_def)
  have p2: "regex_parse (''c.t'' @ [CHR 0x5C, CHR ''.''] @ ''x'') =
     Some [One (Lit CHR ''c''), One AnyChar, One (Lit CHR ''t''), One (Lit CHR ''.''),
           One (Lit CHR ''x'')]"
    using c_t_parse by (simp add: ns_pattern_def)
  have g1: "get_prop (JObj [(''ns'', JStr ''xa.bz''), (''op'', JStr ''i'')]) ''ns'' =
              Inr (JStr ''xa.bz'')"
    by (simp add: get_prop_def)
  have g2: "get_prop (JObj [(''ns'', JStr ''cat.x''), (''op'', JStr ''i'')]) ''ns'' =
              Inr (JStr ''cat.x'')"
    by (simp add: get_prop_def)
  have "''xa.bz'' = ''x'' @ ''a.b'' @ ''z'' \<and>
        ''a.b'' \<in> lang [One (Lit CHR ''a''), One (Lit CHR ''.''), One (Lit CHR ''b'')]"
    by simp
  then have e1: "\<exists>pre mid post. ''xa.bz'' = pre @ mid @ post \<and>
        mid \<in> lang [One (Lit CHR ''a''), One (Lit CHR ''.''), One (Lit CHR ''b'')]"
    by blast
  have "''cat.x'' = [] @ ''cat.x'' @ [] \<and>
        ''cat.x'' \<in> lang [One (Lit CHR ''c''), One AnyChar, One (Lit CHR ''t''),
                           One (Lit CHR ''.''), One (Lit CHR ''x'')]"
    by (simp add: line_terminator_def)
  then have e2: "\<exists>pre mid post. ''cat.x'' = pre @ mid @ post \<and>
        mid \<in> lang [One (Lit CHR ''c''), One AnyChar, One (Lit CHR ''t''),
                     One (Lit CHR ''.''), One (Lit CHR ''x'')]"
    by blast
  have n: "''xa.bz'' \<noteq> ''a'' @ ''.'' @ ''b''" "''cat.x'' \<noteq> ''c.t'' @ ''.'' @ ''x''" by simp_all
  from namespace_filter_is_unanchored_regex [OF g1, of other "''a''" "''b''"]
       namespace_filter_is_unanchored_regex [OF g2, of other "''c.t''" "''x''"]
       e1 e2 p1 p2 g1 g2 n
  show "?P other"
    by blast
qed

section \<open>Properties of the connection\<close>

text \<open>
  C5. \<^verbatim>\<open>getOplogCollection\<close> looks up \<^verbatim>\<open>oplog.rs\<close> first, with \<^verbatim>\<open>{strict: true}\<close>; it
  looks up \<^verbatim>\<open>oplog.$main\<close>, with the same options, exactly when the first lookup reported
  an error, after logging that error; it resolves with the handle found, and when both
  lookups fail it rejects with the error
  \<^verbatim>\<open>Could not find oplog collection. Make sure mongodb is configured for replication\<close>.
\<close>

theorem getOplogCollection_resolution:
   "(\<not> truthy (fst (db ''oplog.rs'' (JObj [(''strict'', JBool True)]))) \<longrightarrow>
       getOplogCollection db = ([Collection ''oplog.rs'' (JObj [(''strict'', JBool True)])], Resolved (snd (db ''oplog.rs'' (JObj [(''strict'', JBool True)]))))) \<and>
    (truthy (fst (db ''oplog.rs'' (JObj [(''strict'', JBool True)]))) \<and> \<not> truthy (fst (db ''oplog.$main'' (JObj [(''strict'', JBool True)]))) \<longrightarrow>
       getOplogCollection db =
         ([Collection ''oplog.rs'' (JObj [(''strict'', JBool True)]), Log (Val (fst (db ''oplog.rs'' (JObj [(''strict'', JBool True)])))),
           Collection ''oplog.$main'' (JObj [(''strict'', JBool True)])],
          Resolved (snd (db ''oplog.$main'' (JObj [(''strict'', JBool True)]))))) \<and>
    (truthy (fst (db ''oplog.rs'' (JObj [(''strict'', JBool True)]))) \<and> truthy (fst (db ''oplog.$main'' (JObj [(''strict'', JBool True)]))) \<longrightarrow>
       getOplogCollection db =
         ([Collection ''oplog.rs'' (JObj [(''strict'', JBool True)]), Log (Val (fst (db ''oplog.rs'' (JObj [(''strict'', JBool True)])))),
           Collection ''oplog.$main'' (JObj [(''strict'', JBool True)]), Log (Val (fst (db ''oplog.$main'' (JObj [(''strict'', JBool True)]))))],
          Rejected (JError ErrorC
            ''Could not find oplog collection. Make sure mongodb is configured for replication''))) \<and>
    (Collection ''oplog.$main'' (JObj [(''strict'', JBool True)]) \<in> set (fst (getOplogCollection db)) \<longleftrightarrow> truthy (fst (db ''oplog.rs'' (JObj [(''strict'', JBool True)])))) \<and>
    hd (fst (getOplogCollection db)) = Collection ''oplog.rs'' (JObj [(''strict'', JBool True)])"
  by (simp add: getOplogCollection_def strict_def split: prod.splits)

theorem getOplogCollection_resolution_witness:
  "truthy (fst ((\<lambda>name opts. if name = ''oplog.$main'' then (JNull, JStr ''main-oplog'')
        else (JError ErrorC ''No such collection'', JUndefined)) ''oplog.rs'' (JObj [(''strict'', JBool True)]))) \<and>
   \<not> truthy (fst ((\<lambda>name opts. if name = ''oplog.$main'' then (JNull, JStr ''main-oplog'')
        else (JError ErrorC ''No such collection'', JUndefined)) ''oplog.$main'' (JObj [(''strict'', JBool True)]))) \<and>
   getOplogCollection (\<lambda>name opts. if name = ''oplog.$main'' then (JNull, JStr ''main-oplog'')
        else (JError ErrorC ''No such collection'', JUndefined)) =
     ([Collection ''oplog.rs'' (JObj [(''strict'', JBool True)]), Log (Val (JError ErrorC ''No such collection'')),
       Collection ''oplog.$main'' (JObj [(''strict'', JBool True)])],
      Resolved (JStr ''main-oplog'')) \<and>
   getOplogCollection (\<lambda>name opts. (JNull, JStr ''rs-oplog'')) =
     ([Collection ''oplog.rs'' (JObj [(''strict'', JBool True)])], Resolved (JStr ''rs-oplog'')) \<and>
   getOplogCollection (\<lambda>name opts. (JError ErrorC ''No such collection'', JUndefined)) =
     ([Collection ''oplog.rs'' (JObj [(''strict'', JBool True)]), Log (Val (JError ErrorC ''No such collection'')),
       Collection ''oplog.$main'' (JObj [(''strict'', JBool True)]), Log (Val (JError ErrorC ''No such collection''))],
      Rejected (JError ErrorC
        ''Could not find oplog collection. Make sure mongodb is configured for replication''))"
proof -
  let ?legacy = "\<lambda>(name :: string) (opts :: js_value).
        if name = ''oplog.$main'' then (JNull, JStr ''main-oplog'')
        else (JError ErrorC ''No such collection'', JUndefined)"
  let ?modern = "\<lambda>(name :: string) (opts :: js_value). (JNull, JStr ''rs-oplog'')"
  let ?none = "\<lambda>(name :: string) (opts :: js_value). (JError ErrorC ''No such collection'', JUndefined)"
  have l1: "truthy (fst (?legacy ''oplog.rs'' (JObj [(''strict'', JBool True)])))" by simp
  have l2: "\<not> truthy (fst (?legacy ''oplog.$main'' (JObj [(''strict'', JBool True)])))" by simp
  have m1: "\<not> truthy (fst (?modern ''oplog.rs'' (JObj [(''strict'', JBool True)])))" by simp
  have n1: "truthy (fst (?none ''oplog.rs'' (JObj [(''strict'', JBool True)])))" by simp
  have n2: "truthy (fst (?none ''oplog.$main'' (JObj [(''strict'', JBool True)])))" by simp
  from getOplogCollection_resolution [of ?legacy] l1 l2
  have a: "getOplogCollection ?legacy =
         ([Collection ''oplog.rs'' (JObj [(''strict'', JBool True)]), Log (Val (fst (?legacy ''oplog.rs'' (JObj [(''strict'', JBool True)])))),
           Collection ''oplog.$main'' (JObj [(''strict'', JBool True)])],
          Resolved (snd (?legacy ''oplog.$main'' (JObj [(''strict'', JBool True)]))))" by blast
  from getOplogCollection_resolution [of ?modern] m1
  have b: "getOplogCollection ?modern =
         ([Collection ''oplog.rs'' (JObj [(''strict'', JBool True)])], Resolved (snd (?modern ''oplog.rs'' (JObj [(''strict'', JBool True)]))))" by blast
  from getOplogCollection_resolution [of ?none] n1 n2
  have c: "getOplogCollection ?none =
         ([Collection ''oplog.rs'' (JObj [(''strict'', JBool True)]), Log (Val (fst (?none ''oplog.rs'' (JObj [(''strict'', JBool True)])))),
           Collection ''oplog.$main'' (JObj [(''strict'', JBool True)]), Log (Val (fst (?none ''oplog.$main'' (JObj [(''strict'', JBool True)]))))],
          Rejected (JError ErrorC
            ''Could not find oplog collection. Make sure mongodb is configured for replication''))"
    by blast
  from a b c l1 l2 show ?thesis by simp
qed

text \<open>
  C9. \<^verbatim>\<open>connectToMongo\<close> creates one client, with the options
  \<^verbatim>\<open>{auth: {user: credentials.username, password: credentials.password}, authSource: 'adming'}\<close>
  when credentials are given and \<^verbatim>\<open>{}\<close> when they are not.
\<close>

theorem connectToMongo_options:
  "\<exists>rest. fst (connectToMongo connect oplogURL credentials) =
      Log (Msg (''Connecting to mongodb: '' @ oplogURL)) #
      NewMongoClient oplogURL
        (if truthy credentials then
           JObj [(''auth'', JObj [(''user'', own_prop credentials ''username''),
                                  (''password'', own_prop credentials ''password'')]),
                 (''authSource'', JStr ''adming'')]
         else JObj []) # rest \<and>
      (\<forall>u opts. NewMongoClient u opts \<notin> set rest)"
  by (cases "connect oplogURL (connect_options credentials)")
     (auto simp add: connectToMongo_def connect_options_def getOplogCollection_def Let_def
        split: prod.splits)

theorem connectToMongo_options_witness:
  "truthy (JObj [(''username'', JStr ''user''), (''password'', JStr ''secret'')]) \<and>
   (\<exists>rest. fst (connectToMongo (\<lambda>url opts. Pending :: js_value client outcome) ''mongodb://host/local''
              (JObj [(''username'', JStr ''user''), (''password'', JStr ''secret'')])) =
      Log (Msg ''Connecting to mongodb: mongodb://host/local'') #
      NewMongoClient ''mongodb://host/local''
        (JObj [(''auth'', JObj [(''user'', JStr ''user''), (''password'', JStr ''secret'')]),
               (''authSource'', JStr ''adming'')]) # rest) \<and>
   \<not> truthy JUndefined \<and>
   (\<exists>rest. fst (connectToMongo (\<lambda>url opts. Pending :: js_value client outcome) ''mongodb://host/local''
              JUndefined) =
      Log (Msg ''Connecting to mongodb: mongodb://host/local'') #
      NewMongoClient ''mongodb://host/local'' (JObj []) # rest)"
  using connectToMongo_options [of "\<lambda>url opts. Pending :: js_value client outcome"
          "''mongodb://host/local''"
          "JObj [(''username'', JStr ''user''), (''password'', JStr ''secret'')]"]
        connectToMongo_options [of "\<lambda>url opts. Pending :: js_value client outcome"
          "''mongodb://host/local''" JUndefined]
  by auto

section \<open>Properties of the constructor\<close>

lemma own_prop_set_prop_other:
  "k \<noteq> k' \<Longrightarrow> own_prop (set_prop a k x) k' = own_prop a k'"
  by (cases a) (simp_all add: update_conv')

lemma own_prop_default_to_other:
  "k \<noteq> k' \<Longrightarrow> own_prop (default_to a k d) k' = own_prop a k'"
  by (simp add: default_to_def own_prop_set_prop_other)

lemma validateArgs_filter_strings:
  assumes "validateArgs args0 = Inr args"
  shows "\<exists>database collection.
           own_prop args ''database'' = JStr database \<and>
           own_prop args ''collection'' = JStr collection"
  using assms
  by (auto simp add: validateArgs_def Let_def own_prop_default_to_other typeof_string_iff
      split: if_splits sum.splits)

lemma on_catch_error: "on_catch (JError c msg) = Emit ''error'' (JError c msg)"
  by (simp add: on_catch_def)

lemma getLastTimestamp_instanceof:
  "\<exists>v. getLastTimestamp now = Resolved v \<and> instanceof_Timestamp v"
  by (simp add: getLastTimestamp_def)

text \<open>
  The \<^verbatim>\<open>catch\<close> handler turns the rejection value \<^verbatim>\<open>'master timeout'\<close>, alone or last
  in an array, into an error of its own; the instance then emits it once and does nothing
  more.
\<close>

lemma master_timeout_surfaces:
  "chain m database collection (Resolved oplog) (Rejected (JStr ''master timeout'')) =
     [Log (Msg ''Connected to mongodb local collection''),
      Emit ''error'' (JError ErrorC ''getLastTimestamp did not resolve before the timeout'')]"
  by (simp add: chain_def on_catch_def)

text \<open>
  C7. When the connection is made and the checkpoint provider resolves to a value that is
  not a \<^verbatim>\<open>mongodb.Timestamp\<close>, the instance logs the connection and emits \<^verbatim>\<open>error\<close>
  with the message \<^verbatim>\<open>getLastTimestamp() should return a mongodb.Timestamp\<close>; it does
  nothing else, so no cursor is opened.
\<close>

theorem invalid_checkpoint_surfaces:
  assumes "validateArgs args0 = Inr args" and "\<not> instanceof_Timestamp v"
  shows "OplogEmitter m args0 (Resolved oplog) (Resolved v) =
    Inr [Log (Msg ''Connected to mongodb local collection''),
         Emit ''error'' (JError ErrorC ''getLastTimestamp() should return a mongodb.Timestamp'')]"
proof -
  from validateArgs_filter_strings [OF assms(1)] obtain database collection where
    "own_prop args ''database'' = JStr database" "own_prop args ''collection'' = JStr collection"
    by blast
  then show ?thesis
    using assms by (simp add: OplogEmitter_def chain_def on_timestamp_def on_catch_error)
qed

theorem invalid_checkpoint_surfaces_witness:
  "\<forall>other.
   validateArgs (JStr ''test'') =
     Inr (JObj [(''oplogURL'', JStr ''test''), (''getLastTimestamp'', JFun Fn_getLastTimestamp),
                (''database'', JStr ''.*''), (''collection'', JStr ''.*''),
                (''retries'', JNum 5), (''log'', JFun Fn_bunyanTrace),
                (''timestampTimeout'', JNum 30000)]) \<and>
   \<not> instanceof_Timestamp (JNum 0) \<and>
   OplogEmitter (fragment_engine other) (JStr ''test'') (Resolved (\<lambda>query options. [])) (Resolved (JNum 0)) =
     Inr [Log (Msg ''Connected to mongodb local collection''),
          Emit ''error'' (JError ErrorC ''getLastTimestamp() should return a mongodb.Timestamp'')]"
  (is "\<forall>other. ?P other")
proof
  fix other :: compiler
  have h: "\<not> instanceof_Timestamp (JNum 0)" by simp
  from invalid_checkpoint_surfaces [OF validateArgs_test h] validateArgs_test h
  show "?P other" by blast
qed

lemma on_stream_then_end:
  assumes "\<forall>doc \<in> set docs. \<exists>b. filter_verdict m database collection doc = Inr b"
  shows "on_stream m database collection (map Data docs @ [End]) =
           on_stream m database collection (map Data docs) @
           [Log (Msg ''Tailable cursor was closed''),
            Emit ''error'' (JError ErrorC ''Database cursor closed unexpectedly'')]"
  using assms
proof (induction docs)
  case Nil
  then show ?case by simp
next
  case (Cons doc docs)
  then obtain b where b: "filter_verdict m database collection doc = Inr b" by auto
  from Cons have IH: "on_stream m database collection (map Data docs @ [End]) =
           on_stream m database collection (map Data docs) @
           [Log (Msg ''Tailable cursor was closed''),
            Emit ''error'' (JError ErrorC ''Database cursor closed unexpectedly'')]"
    by simp
  show ?case using b by (simp add: routeEvent_cases IH)
qed

text \<open>
  C8. When the stream of the tailing cursor ends after its documents, the instance logs
  \<^verbatim>\<open>Tailable cursor was closed\<close> and then emits \<^verbatim>\<open>error\<close> with the message
  \<^verbatim>\<open>Database cursor closed unexpectedly\<close>.
\<close>

theorem cursor_end_surfaces:
  assumes "validateArgs args0 = Inr args"
      and "own_prop args ''database'' = JStr database"
      and "own_prop args ''collection'' = JStr collection"
      and "instanceof_Timestamp lastTimestamp"
      and "oplog (tail_query lastTimestamp) tail_options = map Data docs @ [End]"
      and "\<forall>doc \<in> set docs. \<exists>b. filter_verdict m database collection doc = Inr b"
  shows "OplogEmitter m args0 (Resolved oplog) (Resolved lastTimestamp) =
           Inr (Log (Msg ''Connected to mongodb local collection'') #
                Log (MsgPlus ''Opening tailable cursor to the oplog with timestamp: '' lastTimestamp) #
                Find (tail_query lastTimestamp) tail_options #
                on_stream m database collection (map Data docs) @
                [Log (Msg ''Tailable cursor was closed''),
                 Emit ''error'' (JError ErrorC ''Database cursor closed unexpectedly'')])"
  using assms(1-5) on_stream_then_end [OF assms(6)]
  by (simp add: OplogEmitter_def chain_def on_timestamp_def Let_def)

theorem cursor_end_surfaces_witness:
  "\<forall>other.
   validateArgs (JStr ''test'') =
     Inr (JObj [(''oplogURL'', JStr ''test''), (''getLastTimestamp'', JFun Fn_getLastTimestamp),
                (''database'', JStr ''.*''), (''collection'', JStr ''.*''),
                (''retries'', JNum 5), (''log'', JFun Fn_bunyanTrace),
                (''timestampTimeout'', JNum 30000)]) \<and>
   instanceof_Timestamp (JTimestamp 0 1) \<and>
   filter_verdict (fragment_engine other) ''.*'' ''.*''
     (JObj [(''ns'', JStr ''db.c''), (''op'', JStr ''i'')]) = Inr True \<and>
   OplogEmitter (fragment_engine other) (JStr ''test'')
       (Resolved (\<lambda>query options.
          map Data [JObj [(''ns'', JStr ''db.c''), (''op'', JStr ''i'')]] @ [End]))
       (Resolved (JTimestamp 0 1)) =
     Inr [Log (Msg ''Connected to mongodb local collection''),
          Log (MsgPlus ''Opening tailable cursor to the oplog with timestamp: '' (JTimestamp 0 1)),
          Find (tail_query (JTimestamp 0 1)) tail_options,
          Emit ''op'' (JObj [(''ns'', JStr ''db.c''), (''op'', JStr ''i'')]),
          Emit ''insert'' (JObj [(''ns'', JStr ''db.c''), (''op'', JStr ''i'')]),
          Log (Msg ''Tailable cursor was closed''),
          Emit ''error'' (JError ErrorC ''Database cursor closed unexpectedly'')]"
  (is "\<forall>other. ?P other")
proof
  fix other :: compiler
  let ?doc = "JObj [(''ns'', JStr ''db.c''), (''op'', JStr ''i'')]"
  let ?args = "JObj [(''oplogURL'', JStr ''test''), (''getLastTimestamp'', JFun Fn_getLastTimestamp),
                (''database'', JStr ''.*''), (''collection'', JStr ''.*''),
                (''retries'', JNum 5), (''log'', JFun Fn_bunyanTrace),
                (''timestampTimeout'', JNum 30000)]"
  let ?oplog = "\<lambda>(query :: js_value) (options :: js_value). map Data [?doc] @ [End]"
  have d: "own_prop ?args ''database'' = JStr ''.*''" by simp
  have c: "own_prop ?args ''collection'' = JStr ''.*''" by simp
  have t: "instanceof_Timestamp (JTimestamp 0 1)" by simp
  have s: "?oplog (tail_query (JTimestamp 0 1)) tail_options = map Data [?doc] @ [End]" by simp
  have v: "\<forall>doc \<in> set [?doc]. \<exists>b. filter_verdict (fragment_engine other) ''.*'' ''.*'' doc = Inr b"
    by (auto simp add: verdict_default_example)
  have r: "on_stream (fragment_engine other) ''.*'' ''.*'' (map Data [?doc]) =
             [Emit ''op'' ?doc, Emit ''insert'' ?doc]"
    by (simp add: routeEvent_cases [OF verdict_default_example] switch_op_def)
  from cursor_end_surfaces [OF validateArgs_test d c t s v] r validateArgs_test t
    verdict_default_example [of other "''i''"]
  show "?P other" by simp
qed

end
